theory Spec2Isabelle
  imports Main "HOL-Library.AList"
begin

section \<open>Strings and character classes\<close>

text \<open>
  JavaScript strings are modelled as \<open>string\<close>; a \<open>char\<close> stands for a UTF-16 code unit
  below 256 (ASCII and Latin-1), which covers every character the regular expressions and
  the forbidden-key table of the program name explicitly.
\<close>

definition code :: "char \<Rightarrow> nat" where
  "code c = of_char c"

definition toLowerChar :: "char \<Rightarrow> char" where
  "toLowerChar c =
     (let n = code c
      in if (65 \<le> n \<and> n \<le> 90) \<or> (192 \<le> n \<and> n \<le> 222 \<and> n \<noteq> 215)
         then char_of (n + 32) else c)"

definition toLowerCase :: "string \<Rightarrow> string" where
  "toLowerCase s = map toLowerChar s"

definition isDigit :: "char \<Rightarrow> bool" where
  \<comment> \<open>the regular-expression class \<open>\d\<close>\<close>
  "isDigit c = (48 \<le> code c \<and> code c \<le> 57)"

definition isWord :: "char \<Rightarrow> bool" where
  \<comment> \<open>the regular-expression class \<open>\w\<close>\<close>
  "isWord c =
     ((48 \<le> code c \<and> code c \<le> 57) \<or> (65 \<le> code c \<and> code c \<le> 90)
      \<or> (97 \<le> code c \<and> code c \<le> 122) \<or> code c = 95)"

definition isSpace :: "char \<Rightarrow> bool" where
  \<comment> \<open>the regular-expression class \<open>\s\<close>: tab, LF, VT, FF, CR, space, no-break space\<close>
  "isSpace c = (code c \<in> {9, 10, 11, 12, 13, 32, 160})"

definition isNameChar :: "char \<Rightarrow> bool" where
  \<comment> \<open>the class \<open>[\w.\[\]\-]\<close> of the placeholder pattern\<close>
  "isNameChar c = (isWord c \<or> c \<in> {CHR ''.'', CHR ''['', CHR '']'', CHR ''-''})"

definition isAnyButNewline :: "char \<Rightarrow> bool" where
  \<comment> \<open>the regular-expression atom \<open>.\<close>: everything but the line terminators\<close>
  "isAnyButNewline c = (code c \<noteq> 10 \<and> code c \<noteq> 13)"

definition trim :: "string \<Rightarrow> string" where
  "trim s = rev (dropWhile isSpace (rev (dropWhile isSpace s)))"

definition parseInt :: "string \<Rightarrow> nat" where
  \<comment> \<open>\<open>parseInt\<close> on a string of decimal digits, the only strings it is applied to\<close>
  "parseInt s = foldl (\<lambda>a c. 10 * a + (code c - 48)) 0 s"

fun digitsOf :: "nat \<Rightarrow> string" where
  "digitsOf n =
     (if n < 10 then [char_of (48 + n)] else digitsOf (n div 10) @ [char_of (48 + n mod 10)])"

declare digitsOf.simps [simp del]

definition isArrayIndex :: "string \<Rightarrow> bool" where
  \<comment> \<open>a property name that is the canonical decimal form of an array index\<close>
  "isArrayIndex k = (k \<noteq> [] \<and> list_all isDigit k \<and> (k = ''0'' \<or> hd k \<noteq> CHR ''0''))"

fun split_dot :: "string \<Rightarrow> string list" where
  \<comment> \<open>\<open>path.split('.')\<close>: always at least one segment\<close>
  "split_dot [] = [[]]"
| "split_dot (c # cs) =
     (if c = CHR ''.'' then [] # split_dot cs
      else (case split_dot cs of [] \<Rightarrow> [[c]] | s # ss \<Rightarrow> (c # s) # ss))"

definition arrayMatch :: "string \<Rightarrow> (string \<times> nat) option" where
  \<comment> \<open>\<open>key.match(/^(\w+)\[(\d+)\]$/)\<close>: the identifier and the parsed index\<close>
  "arrayMatch key =
     (let propName = takeWhile isWord key; r = dropWhile isWord key
      in if propName \<noteq> [] \<and> 3 \<le> length r \<and> hd r = CHR ''['' \<and> last r = CHR '']''
            \<and> list_all isDigit (butlast (tl r))
         then Some (propName, parseInt (butlast (tl r))) else None)"

definition FORBIDDEN_KEYS :: "string set" where
  "FORBIDDEN_KEYS = {''__proto__'', ''constructor'', ''prototype''}"


section \<open>Structured data\<close>

text \<open>
  A frontmatter value as \<open>yaml.load\<close> produces it. \<open>undefined\<close> is \<open>None\<close> of an
  option. An object is the list of its own entries in the order \<open>Object.keys\<close> reports
  them. Numbers are integers (floating point is not modelled), the data is a tree (no
  node is shared), and members inherited from \<open>Object.prototype\<close> or
  \<open>Array.prototype\<close> are not part of the data: \<open>in\<close> and property access see the
  own entries of an object, and the elements and \<open>length\<close> of an array.
\<close>

datatype jsvalue =
    Null
  | Str string
  | Num int
  | Bool bool
  | Arr "jsvalue list"
  | Obj "(string \<times> jsvalue) list"

definition isObject :: "jsvalue \<Rightarrow> bool" where
  \<comment> \<open>\<open>typeof v === 'object' && v !== null\<close>\<close>
  "isObject v = (case v of Arr _ \<Rightarrow> True | Obj _ \<Rightarrow> True | _ \<Rightarrow> False)"


definition falsy :: "jsvalue \<Rightarrow> bool" where
  \<comment> \<open>\<open>!v\<close>\<close>
  "falsy v = (v = Null \<or> v = Str [] \<or> v = Num 0 \<or> v = Bool False)"

definition hasProperty :: "jsvalue \<Rightarrow> string \<Rightarrow> bool" where
  \<comment> \<open>\<open>key in obj\<close>\<close>
  "hasProperty obj key =
     (case obj of
        Obj kvs \<Rightarrow> key \<in> set (map fst kvs)
      | Arr xs \<Rightarrow> key = ''length'' \<or> (isArrayIndex key \<and> parseInt key < length xs)
      | _ \<Rightarrow> False)"

definition getProp :: "jsvalue \<Rightarrow> string \<Rightarrow> jsvalue option" where
  \<comment> \<open>\<open>obj[key]\<close>\<close>
  "getProp obj key =
     (case obj of
        Obj kvs \<Rightarrow> map_of kvs key
      | Arr xs \<Rightarrow>
          if key = ''length'' then Some (Num (int (length xs)))
          else if isArrayIndex key \<and> parseInt key < length xs then Some (xs ! parseInt key)
          else None
      | _ \<Rightarrow> None)"

definition objectKeys :: "jsvalue \<Rightarrow> string list" where
  \<comment> \<open>\<open>Object.keys(obj)\<close>\<close>
  "objectKeys obj =
     (case obj of
        Obj kvs \<Rightarrow> map fst kvs
      | Arr xs \<Rightarrow> map digitsOf [0..<length xs]
      | _ \<Rightarrow> [])"

section \<open>Key Resolver and Path Resolver\<close>

definition findKey :: "jsvalue \<Rightarrow> string \<Rightarrow> bool \<Rightarrow> string option" where
  "findKey obj key caseInsensitive =
     (if \<not> isObject obj then None
      else if toLowerCase key \<in> FORBIDDEN_KEYS then None
      else if hasProperty obj key then Some key
      else if caseInsensitive
           then List.find (\<lambda>k. toLowerCase k = toLowerCase key) (objectKeys obj)
      else None)"

definition notFound :: "string option \<Rightarrow> bool" where
  \<comment> \<open>\<open>!foundKey\<close>: \<open>undefined\<close> or the empty string\<close>
  "notFound foundKey = (foundKey = None \<or> foundKey = Some [])"

fun getNestedLoop :: "jsvalue option \<Rightarrow> string list \<Rightarrow> bool \<Rightarrow> jsvalue option" where
  \<comment> \<open>the \<open>for (const key of keys)\<close> loop of \<open>getNestedValue\<close> on the current \<open>value\<close>\<close>
  "getNestedLoop value [] ci = value"
| "getNestedLoop value (key # keys) ci =
     (case value of
        None \<Rightarrow> None
      | Some Null \<Rightarrow> None
      | Some v \<Rightarrow>
          (case arrayMatch key of
             Some (propName, idx) \<Rightarrow>
               (let foundKey = findKey v propName ci
                in if notFound foundKey then None
                   else (case getProp v (the foundKey) of
                           Some (Arr xs) \<Rightarrow>
                             getNestedLoop (if idx < length xs then Some (xs ! idx) else None) keys ci
                         | _ \<Rightarrow> None))
           | None \<Rightarrow>
               (let foundKey = findKey v key ci
                in if notFound foundKey then None
                   else getNestedLoop (getProp v (the foundKey)) keys ci)))"

definition getNestedValue :: "jsvalue \<Rightarrow> string \<Rightarrow> bool \<Rightarrow> jsvalue option" where
  "getNestedValue obj path caseInsensitive =
     (if falsy obj then None else getNestedLoop (Some obj) (split_dot path) caseInsensitive)"

section \<open>Path Mutator\<close>








section \<open>Pattern Compiler\<close>

record PluginSettings =
  openDelimiter :: string
  closeDelimiter :: string
  defaultSeparator :: string
  missingValueText :: string
  supportNestedProperties :: bool
  caseInsensitive :: bool
  arrayJoinSeparator :: string
  preserveOriginalOnMissing :: bool
  showFrontmatterOnlyVariables :: bool

definition DEFAULT_SETTINGS :: PluginSettings where
  "DEFAULT_SETTINGS =
     \<lparr>openDelimiter = ''{{'', closeDelimiter = ''}}'', defaultSeparator = '':'',
      missingValueText = ''[MISSING]'', supportNestedProperties = True,
      caseInsensitive = False, arrayJoinSeparator = '', '',
      preserveOriginalOnMissing = False, showFrontmatterOnlyVariables = False\<rparr>"

text \<open>
  Every \<open>RegExp\<close> the program builds is an instance of one template,
  \<^verbatim>\<open>OPEN\s*([\w.\[\]\-]+)\s*(?:SEP\s*(.*?))?\s*CLOSE\<close> with the flag \<open>g\<close>, where
  \<open>OPEN\<close>, \<open>SEP\<close> and \<open>CLOSE\<close> are tokens passed through \<open>escapeRegex\<close>, which
  makes every character of a token match itself. A \<open>RegExp\<close> object is therefore
  represented by its three tokens; \<open>placeholderAt\<close> below is the matching of the
  template. The literal returned for oversized tokens is the template at
  \<open>{{\<close>, \<open>}}\<close> and \<open>:\<close>.
\<close>

record regexp =
  openToken :: string
  closeToken :: string
  sepToken :: string

type_synonym patternCache = "(string \<times> regexp) option"

definition defaultPattern :: regexp where
  "defaultPattern = \<lparr>openToken = ''{{'', closeToken = ''}}'', sepToken = '':''\<rparr>"

definition MAX_DELIMITER_LEN :: nat where
  "MAX_DELIMITER_LEN = 10"

definition cacheKeyOf :: "PluginSettings \<Rightarrow> string" where
  "cacheKeyOf settings =
     openDelimiter settings @ ''|'' @ closeDelimiter settings @ ''|'' @ defaultSeparator settings"

definition compilePattern :: "PluginSettings \<Rightarrow> regexp" where
  \<comment> \<open>\<open>new RegExp(...)\<close> on the escaped tokens of the settings\<close>
  "compilePattern settings =
     \<lparr>openToken = openDelimiter settings, closeToken = closeDelimiter settings,
      sepToken = defaultSeparator settings\<rparr>"

definition getVariablePattern :: "PluginSettings \<Rightarrow> patternCache \<Rightarrow> regexp \<times> patternCache" where
  \<comment> \<open>the module variable \<open>patternCache\<close> is passed in and returned\<close>
  "getVariablePattern settings cache =
     (if length (openDelimiter settings) > MAX_DELIMITER_LEN
         \<or> length (closeDelimiter settings) > MAX_DELIMITER_LEN
         \<or> length (defaultSeparator settings) > MAX_DELIMITER_LEN
      then (defaultPattern, cache)
      else (let cacheKey = cacheKeyOf settings
            in case cache of
                 Some (key, pattern) \<Rightarrow>
                   if key = cacheKey then (pattern, cache)
                   else (compilePattern settings, Some (cacheKey, compilePattern settings))
               | None \<Rightarrow> (compilePattern settings, Some (cacheKey, compilePattern settings))))"

definition invalidatePatternCache :: patternCache where
  "invalidatePatternCache = None"

section \<open>Matching the placeholder pattern\<close>

text \<open>
  Backtracking is the list of successes: each piece of the pattern maps the text still to
  be read to the texts that may remain after it, in the order in which the regular
  expression engine tries them. The first success of the whole pattern is the match.
\<close>

definition lit :: "string \<Rightarrow> string \<Rightarrow> string list" where
  \<comment> \<open>a literal token\<close>
  "lit w s = (if take (length w) s = w then [drop (length w) s] else [])"

definition greedy :: "(char \<Rightarrow> bool) \<Rightarrow> nat \<Rightarrow> string \<Rightarrow> string list" where
  \<comment> \<open>\<open>c*\<close> (\<open>n = 0\<close>) and \<open>c+\<close> (\<open>n = 1\<close>): longest first\<close>
  "greedy P n s = [drop j s. j \<leftarrow> rev [n..<Suc (length (takeWhile P s))]]"

definition lazy :: "(char \<Rightarrow> bool) \<Rightarrow> string \<Rightarrow> string list" where
  \<comment> \<open>\<open>c*?\<close>: shortest first\<close>
  "lazy P s = [drop j s. j \<leftarrow> [0..<Suc (length (takeWhile P s))]]"

definition consumed :: "string \<Rightarrow> string \<Rightarrow> string" where
  \<comment> \<open>the text read between two points of the input\<close>
  "consumed s s' = take (length s - length s') s"

definition defaultPart :: "regexp \<Rightarrow> string \<Rightarrow> (string option \<times> string) list" where
  \<comment> \<open>\<open>(?:SEP\s*(.*?))?\<close>: the group first (an empty iteration is rejected), then without it\<close>
  "defaultPart p s =
     [(Some (consumed t2 t3), t3).
        t1 \<leftarrow> lit (sepToken p) s,
        t2 \<leftarrow> greedy isSpace 0 t1,
        t3 \<leftarrow> lazy isAnyButNewline t2,
        length t3 < length s]
     @ [(None, s)]"

definition placeholderAt :: "regexp \<Rightarrow> string \<Rightarrow> (string \<times> string option \<times> string) list" where
  \<comment> \<open>group 1, group 2 and the remaining text of every match that starts at the head of \<open>s\<close>\<close>
  "placeholderAt p s =
     [(consumed s2 s3, dflt, s7).
        s1 \<leftarrow> lit (openToken p) s,
        s2 \<leftarrow> greedy isSpace 0 s1,
        s3 \<leftarrow> greedy isNameChar 1 s2,
        s4 \<leftarrow> greedy isSpace 0 s3,
        (dflt, s5) \<leftarrow> defaultPart p s4,
        s6 \<leftarrow> greedy isSpace 0 s5,
        s7 \<leftarrow> lit (closeToken p) s6]"

record rmatch =
  mindex :: nat
  mfull :: string
  mname :: string
  mdefault :: "string option"

definition exec :: "regexp \<Rightarrow> string \<Rightarrow> nat \<Rightarrow> rmatch option" where
  \<comment> \<open>\<open>pattern.exec(S)\<close> with \<open>pattern.lastIndex = lastIndex\<close>\<close>
  "exec p S lastIndex =
     (case List.find (\<lambda>i. placeholderAt p (drop i S) \<noteq> []) [lastIndex..<Suc (length S)] of
        None \<Rightarrow> None
      | Some i \<Rightarrow>
          (case placeholderAt p (drop i S) of
             [] \<Rightarrow> None
           | (n, d, rest) # _ \<Rightarrow>
               Some \<lparr>mindex = i, mfull = consumed (drop i S) rest, mname = n, mdefault = d\<rparr>))"

definition nextIndex :: "rmatch \<Rightarrow> nat" where
  \<comment> \<open>\<open>lastIndex\<close> after a match\<close>
  "nextIndex m = mindex m + length (mfull m)"

function matchAll :: "regexp \<Rightarrow> string \<Rightarrow> nat \<Rightarrow> rmatch list" where
  \<comment> \<open>the matches \<open>String.prototype.replace\<close> collects for a global pattern: after an empty
      match the search resumes one character further\<close>
  "matchAll p S lastIndex =
     (case exec p S lastIndex of
        None \<Rightarrow> []
      | Some m \<Rightarrow> m # matchAll p S (if mfull m = [] then Suc (mindex m) else nextIndex m))"
  by pat_completeness auto
termination
proof (relation "measure (\<lambda>(p, S, i). Suc (length S) - i)")
  show "wf (measure (\<lambda>(p, S, i). Suc (length S) - i))"
    by simp
next
  fix p :: regexp and S :: string and lastIndex :: nat and m :: rmatch
  assume ex: "exec p S lastIndex = Some m"
  then obtain i where f: "List.find (\<lambda>i. placeholderAt p (drop i S) \<noteq> []) [lastIndex..<Suc (length S)] = Some i"
    and mi: "mindex m = i"
    by (auto simp: exec_def split: option.splits list.splits)
  from f have "i \<in> set [lastIndex..<Suc (length S)]"
    by (metis find_Some_iff nth_mem)
  then have "lastIndex \<le> i \<and> i < Suc (length S)"
    by (simp only: set_upt atLeastLessThan_iff)
  then have "lastIndex \<le> mindex m" "mindex m \<le> length S"
    using mi by auto
  then show "((p, S, if mfull m = [] then Suc (mindex m) else nextIndex m), (p, S, lastIndex))
               \<in> measure (\<lambda>(p, S, i). Suc (length S) - i)"
    by (cases "mfull m") (auto simp: nextIndex_def)
qed

function execLoop :: "regexp \<Rightarrow> string \<Rightarrow> nat \<Rightarrow> rmatch list option" where
  \<comment> \<open>the matches of \<open>while ((match = pattern.exec(S)) !== null)\<close>; an empty match leaves
      \<open>lastIndex\<close> where it is and the loop never ends: \<open>None\<close>\<close>
  "execLoop p S lastIndex =
     (case exec p S lastIndex of
        None \<Rightarrow> Some []
      | Some m \<Rightarrow>
          if mfull m = [] then None
          else (case execLoop p S (nextIndex m) of None \<Rightarrow> None | Some ms \<Rightarrow> Some (m # ms)))"
  by pat_completeness auto
termination
proof (relation "measure (\<lambda>(p, S, i). Suc (length S) - i)")
  show "wf (measure (\<lambda>(p, S, i). Suc (length S) - i))"
    by simp
next
  fix p :: regexp and S :: string and lastIndex :: nat and m :: rmatch
  assume ex: "exec p S lastIndex = Some m" and ne: "mfull m \<noteq> []"
  then obtain i where f: "List.find (\<lambda>i. placeholderAt p (drop i S) \<noteq> []) [lastIndex..<Suc (length S)] = Some i"
    and mi: "mindex m = i"
    by (auto simp: exec_def split: option.splits list.splits)
  from f have "i \<in> set [lastIndex..<Suc (length S)]"
    by (metis find_Some_iff nth_mem)
  then have "lastIndex \<le> i \<and> i < Suc (length S)"
    by (simp only: set_upt atLeastLessThan_iff)
  then have "lastIndex \<le> mindex m" "mindex m \<le> length S"
    using mi by auto
  then show "((p, S, nextIndex m), (p, S, lastIndex)) \<in> measure (\<lambda>(p, S, i). Suc (length S) - i)"
    using ne by (cases "mfull m") (auto simp: nextIndex_def)
qed

declare matchAll.simps [simp del] execLoop.simps [simp del]

section \<open>Text forms of values\<close>

text \<open>
  Numbers are written in decimal, which is what JavaScript prints for an integer below
  \<open>10^21\<close> in magnitude.
\<close>

definition showInt :: "int \<Rightarrow> string" where
  "showInt n = (if n < 0 then ''-'' @ digitsOf (nat (- n)) else digitsOf (nat n))"

fun joinStrings :: "string \<Rightarrow> string list \<Rightarrow> string" where
  "joinStrings sep [] = []"
| "joinStrings sep [x] = x"
| "joinStrings sep (x # y # ys) = x @ sep @ joinStrings sep (y # ys)"

fun toStringJS :: "jsvalue \<Rightarrow> string" where
  \<comment> \<open>\<open>String(v)\<close>\<close>
  "toStringJS Null = ''null''"
| "toStringJS (Str s) = s"
| "toStringJS (Num n) = showInt n"
| "toStringJS (Bool b) = (if b then ''true'' else ''false'')"
| "toStringJS (Arr xs) =
     joinStrings '','' (map (\<lambda>x. if x = Null then [] else toStringJS x) xs)"
| "toStringJS (Obj kvs) = ''[object Object]''"

definition joinJS :: "jsvalue list \<Rightarrow> string \<Rightarrow> string" where
  \<comment> \<open>\<open>xs.join(sep)\<close>: \<open>null\<close> elements give the empty string\<close>
  "joinJS xs sep = joinStrings sep (map (\<lambda>x. if x = Null then [] else toStringJS x) xs)"

definition hexDigit :: "nat \<Rightarrow> char" where
  "hexDigit n = (if n < 10 then char_of (48 + n) else char_of (87 + n))"

definition quoteChar :: "char \<Rightarrow> string" where
  \<comment> \<open>the escapes of \<open>JSON.stringify\<close> inside a string; \<open>CHR 0x5C\<close> is the backslash\<close>
  "quoteChar c =
     (if code c = 8 then [CHR 0x5C, CHR ''b'']
      else if code c = 9 then [CHR 0x5C, CHR ''t'']
      else if code c = 10 then [CHR 0x5C, CHR ''n'']
      else if code c = 12 then [CHR 0x5C, CHR ''f'']
      else if code c = 13 then [CHR 0x5C, CHR ''r'']
      else if code c = 34 then [CHR 0x5C, CHR 0x22]
      else if code c = 92 then [CHR 0x5C, CHR 0x5C]
      else if code c < 32
           then [CHR 0x5C, CHR ''u'', CHR ''0'', CHR ''0'', hexDigit (code c div 16), hexDigit (code c mod 16)]
      else [c])"

definition quoteJSON :: "string \<Rightarrow> string" where
  "quoteJSON s = [CHR 0x22] @ concat (map quoteChar s) @ [CHR 0x22]"

fun jsonStringify :: "jsvalue \<Rightarrow> string" where
  \<comment> \<open>\<open>JSON.stringify(v)\<close>; on a tree it never throws\<close>
  "jsonStringify Null = ''null''"
| "jsonStringify (Str s) = quoteJSON s"
| "jsonStringify (Num n) = showInt n"
| "jsonStringify (Bool b) = (if b then ''true'' else ''false'')"
| "jsonStringify (Arr xs) = ''['' @ joinStrings '','' (map jsonStringify xs) @ '']''"
| "jsonStringify (Obj kvs) =
     ''{'' @ joinStrings '','' (map (\<lambda>(k, v). quoteJSON k @ '':'' @ jsonStringify v) kvs) @ ''}''"

section \<open>Substitution Engine\<close>

record ReplacementResult =
  result :: string
  replacementCount :: nat
  missingCount :: nat

definition resolved :: "jsvalue option \<Rightarrow> bool" where
  \<comment> \<open>\<open>value !== undefined && value !== null && value !== ''\<close>\<close>
  "resolved v = (v \<noteq> None \<and> v \<noteq> Some Null \<and> v \<noteq> Some (Str []))"

definition formatValue :: "PluginSettings \<Rightarrow> jsvalue \<Rightarrow> string" where
  "formatValue settings v =
     (case v of
        Arr xs \<Rightarrow>
          joinJS xs (if arrayJoinSeparator settings = [] then '', '' else arrayJoinSeparator settings)
      | Obj kvs \<Rightarrow> jsonStringify v
      | _ \<Rightarrow> toStringJS v)"

definition replacer ::
  "PluginSettings \<Rightarrow> (string \<Rightarrow> jsvalue option) \<Rightarrow> rmatch \<Rightarrow> nat \<times> nat \<Rightarrow> string \<times> nat \<times> nat" where
  \<comment> \<open>the callback of \<open>text.replace\<close>; the pair is \<open>(replacementCount, missingCount)\<close>,
      \<open>lookup\<close> is the call of \<open>getNestedValue\<close> on the frontmatter\<close>
  "replacer settings lookup m counts =
     (let v = lookup (trim (mname m))
      in if resolved v then (formatValue settings (the v), Suc (fst counts), snd counts)
         else (case mdefault m of
                 Some d \<Rightarrow> (d, Suc (fst counts), snd counts)
               | None \<Rightarrow>
                   (if preserveOriginalOnMissing settings then mfull m else missingValueText settings,
                    fst counts, Suc (snd counts))))"

fun replaceBuild ::
  "string \<Rightarrow> (rmatch \<Rightarrow> nat \<times> nat \<Rightarrow> string \<times> nat \<times> nat) \<Rightarrow> rmatch list \<Rightarrow> nat \<Rightarrow> nat \<times> nat
     \<Rightarrow> string \<times> nat \<times> nat" where
  \<comment> \<open>how \<open>replace\<close> assembles its result from the matches, calling the callback on each
      in turn; \<open>pos\<close> is the end of the previous match\<close>
  "replaceBuild S f [] pos counts = (drop pos S, counts)"
| "replaceBuild S f (m # ms) pos counts =
     (case f m counts of
        (r, counts') \<Rightarrow>
          if pos \<le> mindex m
          then (case replaceBuild S f ms (nextIndex m) counts' of
                  (out, counts'') \<Rightarrow> (take (mindex m - pos) (drop pos S) @ r @ out, counts''))
          else replaceBuild S f ms pos counts')"

definition replaceWith ::
  "regexp \<Rightarrow> PluginSettings \<Rightarrow> (string \<Rightarrow> jsvalue option) \<Rightarrow> string \<Rightarrow> ReplacementResult" where
  \<comment> \<open>the body of \<open>replaceVariables\<close> once the pattern is at hand\<close>
  "replaceWith pattern settings lookup text =
     (case replaceBuild text (replacer settings lookup) (matchAll pattern text 0) 0 (0, 0) of
        (out, rc, mc) \<Rightarrow> \<lparr>result = out, replacementCount = rc, missingCount = mc\<rparr>)"

definition replaceVariables ::
  "string \<Rightarrow> jsvalue \<Rightarrow> PluginSettings \<Rightarrow> patternCache \<Rightarrow> ReplacementResult \<times> patternCache" where
  \<comment> \<open>\<open>replaceVariables\<close> of \<open>variableReplacer.ts\<close>\<close>
  "replaceVariables text frontmatter settings cache =
     (case getVariablePattern settings cache of
        (pattern, cache') \<Rightarrow>
          (replaceWith pattern settings
             (\<lambda>name. getNestedValue frontmatter name (caseInsensitive settings)) text,
           cache'))"

text \<open>
  \<open>main.js\<close> holds a second copy of the engine, written as methods of the plugin object.
  Its \<open>findKey\<close>, \<open>getVariablePattern\<close> and the callback of \<open>replaceVariables\<close> are
  the ones above; its \<open>getNestedValue\<close> has a mode without nesting.
\<close>

definition getNestedValue_main :: "PluginSettings \<Rightarrow> jsvalue \<Rightarrow> string \<Rightarrow> jsvalue option" where
  "getNestedValue_main settings obj path =
     (if \<not> supportNestedProperties settings
      then (let foundKey = findKey obj path (caseInsensitive settings)
            in if notFound foundKey then None else getProp obj (the foundKey))
      else getNestedLoop (Some obj) (split_dot path) (caseInsensitive settings))"

definition replaceVariables_main ::
  "string \<Rightarrow> jsvalue \<Rightarrow> PluginSettings \<Rightarrow> patternCache \<Rightarrow> ReplacementResult \<times> patternCache" where
  \<comment> \<open>\<open>replaceVariables\<close> of \<open>main.js\<close>\<close>
  "replaceVariables_main text frontmatter settings cache =
     (case getVariablePattern settings cache of
        (pattern, cache') \<Rightarrow>
          (replaceWith pattern settings (getNestedValue_main settings frontmatter) text, cache'))"

section \<open>Document Scanner\<close>

datatype status = Exists | Missing | HasDefault | FrontmatterOnly

record varPosition =
  line :: nat
  start :: nat
  endCol :: nat

record Variable =
  name :: string
  status :: status
  val :: "jsvalue option"
  defaultValue :: "string option"
  fullMatch :: "string option"
  position :: "varPosition option"

definition countNewlines :: "string \<Rightarrow> nat" where
  \<comment> \<open>\<open>s.split('\n').length - 1\<close>\<close>
  "countNewlines s = length (filter (\<lambda>c. c = CHR 0x0A) s)"

definition lastIndexOfNewline :: "string \<Rightarrow> nat option" where
  \<comment> \<open>\<open>s.lastIndexOf('\n')\<close>, \<open>None\<close> for \<open>-1\<close>\<close>
  "lastIndexOfNewline s =
     (if CHR 0x0A \<in> set s
      then Some (length s - Suc (length (takeWhile (\<lambda>c. c \<noteq> CHR 0x0A) (rev s))))
      else None)"

definition statusOf :: "jsvalue option \<Rightarrow> string option \<Rightarrow> status" where
  "statusOf v d = (if resolved v then Exists else if d \<noteq> None then HasDefault else Missing)"

definition positionOf :: "nat \<Rightarrow> string \<Rightarrow> rmatch \<Rightarrow> varPosition" where
  "positionOf frontmatterLines bodyPart m =
     (let textBeforeMatch = take (mindex m) bodyPart;
          lineNum = frontmatterLines + countNewlines textBeforeMatch;
          charPos = (case lastIndexOfNewline textBeforeMatch of
                       None \<Rightarrow> mindex m
                     | Some lastNewline \<Rightarrow> mindex m - lastNewline - 1)
      in \<lparr>line = lineNum, start = charPos, endCol = charPos + length (mfull m)\<rparr>)"

definition variableOf :: "(string \<Rightarrow> jsvalue option) \<Rightarrow> nat \<Rightarrow> string \<Rightarrow> rmatch \<Rightarrow> Variable" where
  \<comment> \<open>the object pushed for one match\<close>
  "variableOf lookup frontmatterLines bodyPart m =
     (let varName = trim (mname m); v = lookup varName
      in \<lparr>name = varName, status = statusOf v (mdefault m), val = v,
          defaultValue = mdefault m, fullMatch = Some (mfull m),
          position = Some (positionOf frontmatterLines bodyPart m)\<rparr>)"

fun scanLoop :: "(rmatch \<Rightarrow> Variable) \<Rightarrow> rmatch list \<Rightarrow> Variable list \<Rightarrow> string list \<Rightarrow> Variable list" where
  \<comment> \<open>the body of the \<open>while\<close> loop of \<open>variableReplacer.ts\<close> over the successive matches\<close>
  "scanLoop mk [] variables seen = variables"
| "scanLoop mk (m # ms) variables seen =
     (if trim (mname m) \<in> set seen then scanLoop mk ms variables seen
      else scanLoop mk ms (variables @ [mk m]) (trim (mname m) # seen))"

definition scanDocumentVariables ::
  "string \<Rightarrow> jsvalue \<Rightarrow> nat \<Rightarrow> PluginSettings \<Rightarrow> patternCache \<Rightarrow> (Variable list \<times> patternCache) option" where
  \<comment> \<open>\<open>scanDocumentVariables\<close> of \<open>variableReplacer.ts\<close>; \<open>None\<close>: the loop does not end\<close>
  "scanDocumentVariables text frontmatter frontmatterEnd settings cache =
     (let bodyPart = drop frontmatterEnd text
      in case getVariablePattern settings cache of
           (pattern, cache') \<Rightarrow>
             (let frontmatterLines = countNewlines (take frontmatterEnd text)
              in case execLoop pattern bodyPart 0 of
                   None \<Rightarrow> None
                 | Some ms \<Rightarrow>
                     Some (scanLoop
                             (variableOf (\<lambda>n. getNestedValue frontmatter n (caseInsensitive settings))
                                frontmatterLines bodyPart) ms [] [],
                           cache')))"






section \<open>Notions used to state the properties\<close>



definition noSuchElement :: "jsvalue option \<Rightarrow> string \<Rightarrow> nat \<Rightarrow> bool \<Rightarrow> bool" where
  \<comment> \<open>at the node reached, the identifier does not resolve to a sequence that has the index\<close>
  "noSuchElement node ident idx ci =
     (case node of
        None \<Rightarrow> True
      | Some cur \<Rightarrow>
          (case findKey cur ident ci of
             None \<Rightarrow> True
           | Some key \<Rightarrow> (case getProp cur key of Some (Arr xs) \<Rightarrow> length xs \<le> idx | _ \<Rightarrow> True)))"



section \<open>Properties of the Path Resolver\<close>

lemma getNestedLoop_None [simp]: "getNestedLoop None keys ci = None"
  by (cases keys) simp_all

lemma getNestedLoop_append:
  "getNestedLoop v (xs @ ys) ci = getNestedLoop (getNestedLoop v xs ci) ys ci"
  by (induction xs arbitrary: v)
     (auto simp: Let_def split: option.splits jsvalue.splits)


lemma getNestedLoop_index_absent:
  assumes "arrayMatch seg = Some (ident, idx)" and "noSuchElement (Some cur) ident idx ci"
  shows "getNestedLoop (Some cur) (seg # post) ci = None"
  using assms
  by (auto simp: noSuchElement_def notFound_def Let_def split: option.splits jsvalue.splits)

text \<open>
  Claim C8. A segment \<open>identifier[index]\<close> whose identifier does not resolve to a
  sequence, or whose index is outside the sequence, makes \<open>getNestedValue\<close> return
  \<open>undefined\<close>: the function is total, and the element is read only when the index is
  below the length. With the data \<open>{a: ["x", "y"]}\<close> the placeholder \<open>{{a[5]}}\<close> is
  counted as missing by \<open>replaceVariables\<close> and classified \<open>Missing\<close> by the scanner.
\<close>

theorem getNestedValue_index_absent:
  assumes "split_dot path = pre @ seg # post"
    and "arrayMatch seg = Some (ident, idx)"
    and "noSuchElement (getNestedLoop (Some root) pre ci) ident idx ci"
  shows "getNestedValue root path ci = None
       \<and> fst (replaceVariables ''{{a[5]}}'' (Obj [(''a'', Arr [Str ''x'', Str ''y''])])
                DEFAULT_SETTINGS None)
           = \<lparr>result = ''[MISSING]'', replacementCount = 0, missingCount = 1\<rparr>
       \<and> map_option (map status \<circ> fst)
            (scanDocumentVariables ''{{a[5]}}'' (Obj [(''a'', Arr [Str ''x'', Str ''y''])]) 0
               DEFAULT_SETTINGS None)
           = Some [Missing]"
proof (intro conjI)
  show "getNestedValue root path ci = None"
  proof (cases "getNestedLoop (Some root) pre ci")
    case None
    then show ?thesis
      by (simp add: getNestedValue_def assms(1) getNestedLoop_append)
  next
    case (Some cur)
    with assms(3) have "noSuchElement (Some cur) ident idx ci" by simp
    then have "getNestedLoop (Some cur) (seg # post) ci = None"
      by (rule getNestedLoop_index_absent [OF assms(2)])
    with Some show ?thesis
      by (simp add: getNestedValue_def assms(1) getNestedLoop_append)
  qed
next
  show "fst (replaceVariables ''{{a[5]}}'' (Obj [(''a'', Arr [Str ''x'', Str ''y''])])
                DEFAULT_SETTINGS None)
           = \<lparr>result = ''[MISSING]'', replacementCount = 0, missingCount = 1\<rparr>"
    by code_simp
next
  show "map_option (map status \<circ> fst)
            (scanDocumentVariables ''{{a[5]}}'' (Obj [(''a'', Arr [Str ''x'', Str ''y''])]) 0
               DEFAULT_SETTINGS None)
           = Some [Missing]"
    by code_simp
qed

theorem getNestedValue_index_absent_witness:
  "split_dot ''a[5]'' = [] @ ''a[5]'' # []
   \<and> arrayMatch ''a[5]'' = Some (''a'', 5)
   \<and> noSuchElement (getNestedLoop (Some (Obj [(''a'', Arr [Str ''x'', Str ''y''])])) [] False) ''a'' 5 False
   \<and> getNestedValue (Obj [(''a'', Arr [Str ''x'', Str ''y''])]) ''a[5]'' False = None"
proof -
  have h1: "split_dot ''a[5]'' = [] @ ''a[5]'' # []"
    by code_simp
  have h2: "arrayMatch ''a[5]'' = Some (''a'', 5)"
    by code_simp
  have h3: "noSuchElement (getNestedLoop (Some (Obj [(''a'', Arr [Str ''x'', Str ''y''])])) [] False)
              ''a'' 5 False"
    by code_simp
  from getNestedValue_index_absent [OF h1 h2 h3]
  have "getNestedValue (Obj [(''a'', Arr [Str ''x'', Str ''y''])]) ''a[5]'' False = None"
    by (rule conjunct1)
  with h1 h2 h3 show ?thesis by blast
qed

section \<open>Properties of the Path Mutator\<close>




























section \<open>Properties of the Pattern Compiler\<close>




text \<open>
  Claim C3. The cache is meant to be pure memoization, as the comment "return cached pattern
  if settings haven't changed" says, but its key joins the three tokens with \<open>|\<close>, so
  two configurations whose tokens contain \<open>|\<close> can share a key. After a call with the
  tokens \<open>a|b\<close>, \<open>c\<close>, \<open>d\<close>, a call with \<open>a\<close>, \<open>b|c\<close>, \<open>d\<close> gets the pattern of
  the first: \<open>axb|c\<close> is then left as it is, while a freshly compiled pattern replaces it.
\<close>

theorem pattern_cache_key_collision:
  "cacheKeyOf (DEFAULT_SETTINGS\<lparr>openDelimiter := ''a|b'', closeDelimiter := ''c'', defaultSeparator := ''d''\<rparr>)
     = cacheKeyOf (DEFAULT_SETTINGS\<lparr>openDelimiter := ''a'', closeDelimiter := ''b|c'', defaultSeparator := ''d''\<rparr>)
   \<and> fst (getVariablePattern
            (DEFAULT_SETTINGS\<lparr>openDelimiter := ''a'', closeDelimiter := ''b|c'', defaultSeparator := ''d''\<rparr>)
            (snd (getVariablePattern
                    (DEFAULT_SETTINGS\<lparr>openDelimiter := ''a|b'', closeDelimiter := ''c'', defaultSeparator := ''d''\<rparr>)
                    None)))
       = \<lparr>openToken = ''a|b'', closeToken = ''c'', sepToken = ''d''\<rparr>
   \<and> fst (replaceVariables ''axb|c'' (Obj [(''x'', Str ''1'')])
            (DEFAULT_SETTINGS\<lparr>openDelimiter := ''a'', closeDelimiter := ''b|c'', defaultSeparator := ''d''\<rparr>)
            (snd (getVariablePattern
                    (DEFAULT_SETTINGS\<lparr>openDelimiter := ''a|b'', closeDelimiter := ''c'', defaultSeparator := ''d''\<rparr>)
                    None)))
       = \<lparr>result = ''axb|c'', replacementCount = 0, missingCount = 0\<rparr>
   \<and> fst (replaceVariables ''axb|c'' (Obj [(''x'', Str ''1'')])
            (DEFAULT_SETTINGS\<lparr>openDelimiter := ''a'', closeDelimiter := ''b|c'', defaultSeparator := ''d''\<rparr>)
            invalidatePatternCache)
       = \<lparr>result = ''1'', replacementCount = 1, missingCount = 0\<rparr>"
  by code_simp

section \<open>Properties of the Substitution Engine\<close>




lemma fst_replaceVariables:
  "fst (replaceVariables text fm settings cache)
     = replaceWith (fst (getVariablePattern settings cache)) settings
         (\<lambda>n. getNestedValue fm n (caseInsensitive settings)) text"
  by (simp add: replaceVariables_def split: prod.splits)

lemma fst_replaceVariables_main:
  "fst (replaceVariables_main text fm settings cache)
     = replaceWith (fst (getVariablePattern settings cache)) settings
         (getNestedValue_main settings fm) text"
  by (simp add: replaceVariables_main_def split: prod.splits)

lemma replacer_counts:
  "replacer settings lookup m c = (r, c') \<Longrightarrow> fst c' + snd c' = Suc (fst c + snd c)"
  by (auto simp: replacer_def Let_def split: if_splits option.splits)

lemma replaceBuild_counts:
  "replaceBuild S (replacer settings lookup) ms pos c = (out, c') \<Longrightarrow>
     fst c' + snd c' = fst c + snd c + length ms"
proof (induction ms arbitrary: pos c out c')
  case Nil
  then show ?case by simp
next
  case (Cons m ms)
  obtain r c1 where f: "replacer settings lookup m c = (r, c1)"
    by (cases "replacer settings lookup m c") auto
  have c1: "fst c1 + snd c1 = Suc (fst c + snd c)"
    using replacer_counts [OF f] .
  show ?case
  proof (cases "pos \<le> mindex m")
    case True
    obtain out2 c2 where b: "replaceBuild S (replacer settings lookup) ms (nextIndex m) c1 = (out2, c2)"
      by (cases "replaceBuild S (replacer settings lookup) ms (nextIndex m) c1") auto
    from Cons.prems f True b have "c' = c2" by simp
    with Cons.IH [OF b] c1 show ?thesis by simp
  next
    case False
    with Cons.prems f have b: "replaceBuild S (replacer settings lookup) ms pos c1 = (out, c')"
      by simp
    with Cons.IH [OF b] c1 show ?thesis by simp
  qed
qed

lemma replaceWith_counts:
  "replacementCount (replaceWith p settings lookup text)
     + missingCount (replaceWith p settings lookup text)
   = length (matchAll p text 0)"
proof -
  obtain out c where b:
    "replaceBuild text (replacer settings lookup) (matchAll p text 0) 0 (0, 0) = (out, c)"
    by (cases "replaceBuild text (replacer settings lookup) (matchAll p text 0) 0 (0, 0)") auto
  from replaceBuild_counts [OF b] b show ?thesis
    by (cases c) (simp add: replaceWith_def)
qed



text \<open>
  Claim C10. Every placeholder match of the text increments exactly one of the two
  counters: on return \<open>replacementCount + missingCount\<close> is the number of matches, for
  \<open>replaceVariables\<close> of \<open>variableReplacer.ts\<close> and of \<open>main.js\<close> alike. The
  counters are natural numbers, so neither is negative.
\<close>

theorem replaceVariables_counts:
  "replacementCount (fst (replaceVariables text fm settings cache))
     + missingCount (fst (replaceVariables text fm settings cache))
   = length (matchAll (fst (getVariablePattern settings cache)) text 0)
  \<and> replacementCount (fst (replaceVariables_main text fm settings cache))
     + missingCount (fst (replaceVariables_main text fm settings cache))
   = length (matchAll (fst (getVariablePattern settings cache)) text 0)"
  by (simp add: fst_replaceVariables fst_replaceVariables_main replaceWith_counts)

theorem replaceVariables_counts_witness:
  "length (matchAll (fst (getVariablePattern DEFAULT_SETTINGS None)) ''Hi {{name}}, age {{age}}'' 0) = 2
   \<and> replacementCount (fst (replaceVariables ''Hi {{name}}, age {{age}}''
         (Obj [(''name'', Str ''Ann'')]) DEFAULT_SETTINGS None))
       + missingCount (fst (replaceVariables ''Hi {{name}}, age {{age}}''
         (Obj [(''name'', Str ''Ann'')]) DEFAULT_SETTINGS None)) = 2"
proof -
  have h: "length (matchAll (fst (getVariablePattern DEFAULT_SETTINGS None))
             ''Hi {{name}}, age {{age}}'' 0) = 2"
    by code_simp
  from replaceVariables_counts [of "''Hi {{name}}, age {{age}}''" "Obj [(''name'', Str ''Ann'')]"
         DEFAULT_SETTINGS None]
  have "replacementCount (fst (replaceVariables ''Hi {{name}}, age {{age}}''
         (Obj [(''name'', Str ''Ann'')]) DEFAULT_SETTINGS None))
       + missingCount (fst (replaceVariables ''Hi {{name}}, age {{age}}''
         (Obj [(''name'', Str ''Ann'')]) DEFAULT_SETTINGS None))
       = length (matchAll (fst (getVariablePattern DEFAULT_SETTINGS None))
             ''Hi {{name}}, age {{age}}'' 0)"
    by (rule conjunct1)
  with h show ?thesis by simp
qed



section \<open>Properties of the matcher and of the Document Scanner\<close>



lemma lazy_length: "s' \<in> set (lazy P s) \<Longrightarrow> length s' \<le> length s"
  by (auto simp: lazy_def simp del: upt_Suc)





lemma name_variableOf [simp]: "name (variableOf lookup l b m) = trim (mname m)"
  by (simp add: variableOf_def Let_def)








end
